theory Spec2Isabelle
  imports Main
begin

section \<open>Python values, exceptions and the world of one request\<close>

text \<open>
  The module \<^verbatim>\<open>backend/src/auth/auth.py\<close> is dynamically typed, and one of its
  comparisons is the identity test \<^verbatim>\<open>is\<close>. A Python object is therefore modelled
  with its identity (what \<^verbatim>\<open>id()\<close> returns) next to its value. Dictionaries are
  association lists in insertion order with string keys, as \<^verbatim>\<open>json.loads\<close> builds them.
  Strings are lists of characters; JSON numbers are never inspected by this module.
\<close>

datatype 'r pyval =
    VNone
  | VBool bool
  | VNum int
  | VStr string
  | VList "'r list"
  | VDict "(string \<times> 'r) list"

datatype pyobj = Obj (ident: nat) (val: "pyobj pyval")

type_synonym dict = "(string \<times> pyobj) list"

text \<open>The \<^verbatim>\<open>None\<close> singleton that a function returns when it falls off its end.\<close>

definition py_None :: pyobj where
  "py_None = Obj 0 VNone"

text \<open>
  Exceptions. \<^verbatim>\<open>AuthError\<close> is the class of this module, with its \<^verbatim>\<open>error\<close>
  dictionary and its \<^verbatim>\<open>status_code\<close>. The others are raised by the interpreter
  (\<^verbatim>\<open>KeyError\<close>, \<^verbatim>\<open>TypeError\<close>) or by the libraries: python-jose
  (\<^verbatim>\<open>ExpiredSignatureError\<close>, \<^verbatim>\<open>JWTClaimsError\<close>, \<^verbatim>\<open>JWTError\<close>), urllib
  (\<^verbatim>\<open>URLError\<close>, \<^verbatim>\<open>HTTPError\<close> with its status) and json
  (\<^verbatim>\<open>JSONDecodeError\<close>). \<open>OtherException\<close> is any further subclass of
  \<^verbatim>\<open>Exception\<close>; \<open>NonException\<close> is a \<^verbatim>\<open>BaseException\<close> outside
  \<^verbatim>\<open>Exception\<close>, such as \<^verbatim>\<open>KeyboardInterrupt\<close>.
\<close>

datatype exc =
    AuthError (error: "(string \<times> string) list") (status_code: nat)
  | ExpiredSignatureError
  | JWTClaimsError
  | JWTError
  | KeyError
  | TypeError
  | URLError
  | HTTPError nat
  | JSONDecodeError
  | OtherException string
  | NonException string

fun is_Exception :: "exc \<Rightarrow> bool" where
  "is_Exception (NonException _) = False"
| "is_Exception _ = True"

definition exc_bind :: "exc + 'a \<Rightarrow> ('a \<Rightarrow> exc + 'b) \<Rightarrow> exc + 'b" where
  "exc_bind m f = (case m of Inl e \<Rightarrow> Inl e | Inr x \<Rightarrow> f x)"

text \<open>
  What the module calls and does not define: the header lookup of the current Flask
  request, the two python-jose functions, \<^verbatim>\<open>urlopen(url).read()\<close> and
  \<^verbatim>\<open>json.loads\<close>. Each either raises or returns.
\<close>

record env =
  headers_get :: "string \<Rightarrow> string option"
  get_unverified_header :: "string \<Rightarrow> exc + dict"
  urlopen_read :: "string \<Rightarrow> exc + string"
  json_loads :: "string \<Rightarrow> exc + pyobj"
  jwt_decode :: "string \<Rightarrow> dict \<Rightarrow> string list \<Rightarrow> string \<Rightarrow> string \<Rightarrow> exc + pyobj"

text \<open>The effects a request leaves behind: network requests and calls of the handler.\<close>

datatype event = UrlOpen string | HandlerCall pyobj

section \<open>Python operators used by the module\<close>

text \<open>
  \<^verbatim>\<open>str.split(sep)\<close> with an explicit one-character separator: every occurrence
  of the separator cuts, so consecutive separators give empty parts, and the empty
  string gives one empty part.
\<close>

fun py_split :: "char \<Rightarrow> string \<Rightarrow> string list" where
  "py_split sep [] = [[]]"
| "py_split sep (c # cs) =
     (if c = sep then [] # py_split sep cs
      else (case py_split sep cs of
              [] \<Rightarrow> [[c]]
            | p # ps \<Rightarrow> (c # p) # ps))"

text \<open>
  \<^verbatim>\<open>str.lower()\<close> on the Latin-1 code points that a WSGI header value consists
  of: A to Z and the accented capitals 192 to 222 (without the multiplication sign 215)
  move up by 32.
\<close>

definition lower_char :: "char \<Rightarrow> char" where
  "lower_char c =
     (let n = (of_char c :: nat) in
      if 65 \<le> n \<and> n \<le> 90 then char_of (n + 32)
      else if n = 215 then c
      else if 192 \<le> n \<and> n \<le> 222 then char_of (n + 32)
      else c)"

definition py_lower :: "string \<Rightarrow> string" where
  "py_lower s = map lower_char s"

text \<open>\<^verbatim>\<open>x in s\<close> for two strings: \<open>x\<close> occurs in \<open>s\<close> as a contiguous piece.\<close>

fun py_substr :: "string \<Rightarrow> string \<Rightarrow> bool" where
  "py_substr x [] = (x = [])"
| "py_substr x (c # cs) = (take (length x) (c # cs) = x \<or> py_substr x cs)"

text \<open>
  \<^verbatim>\<open>x in container\<close> for a string \<open>x\<close>: key membership in a dictionary, equality
  with an element in a list, substring in a string, \<^verbatim>\<open>TypeError\<close> otherwise.
\<close>

definition py_contains :: "string \<Rightarrow> pyobj \<Rightarrow> exc + bool" where
  "py_contains x container =
     (case val container of
        VDict kvs \<Rightarrow> Inr (x \<in> set (map fst kvs))
      | VList xs \<Rightarrow> Inr (VStr x \<in> set (map val xs))
      | VStr s \<Rightarrow> Inr (py_substr x s)
      | VNone \<Rightarrow> Inl TypeError
      | VBool b \<Rightarrow> Inl TypeError
      | VNum n \<Rightarrow> Inl TypeError)"

text \<open>
  \<^verbatim>\<open>container[k]\<close> for a string \<open>k\<close>: the value in a dictionary or
  \<^verbatim>\<open>KeyError\<close>; \<^verbatim>\<open>TypeError\<close> on everything else.
\<close>

definition dict_getitem :: "dict \<Rightarrow> string \<Rightarrow> exc + pyobj" where
  "dict_getitem kvs k = (case map_of kvs k of None \<Rightarrow> Inl KeyError | Some v \<Rightarrow> Inr v)"

definition py_getitem :: "pyobj \<Rightarrow> string \<Rightarrow> exc + pyobj" where
  "py_getitem container k =
     (case val container of
        VDict kvs \<Rightarrow> dict_getitem kvs k
      | VList xs \<Rightarrow> Inl TypeError
      | VStr s \<Rightarrow> Inl TypeError
      | VNone \<Rightarrow> Inl TypeError
      | VBool b \<Rightarrow> Inl TypeError
      | VNum n \<Rightarrow> Inl TypeError)"

text \<open>\<^verbatim>\<open>a is b\<close>: the two references are the same object.\<close>

definition py_is :: "pyobj \<Rightarrow> pyobj \<Rightarrow> bool" where
  "py_is a b = (ident a = ident b)"

section \<open>The module\<close>

definition AUTH0_DOMAIN :: string where
  "AUTH0_DOMAIN = ''ask-auth.us.auth0.com''"

definition ALGORITHMS :: "string list" where
  "ALGORITHMS = [''RS256'']"

definition API_AUDIENCE :: string where
  "API_AUDIENCE = ''coffee_shop''"

subsection \<open>\<^verbatim>\<open>get_token_auth_header\<close>\<close>

definition get_token_auth_header :: "env \<Rightarrow> exc + string" where
  "get_token_auth_header env =
     (case headers_get env ''Authorization'' of
        None \<Rightarrow>
          Inl (AuthError
            [(''message'', ''Authorization header is missing.''),
             (''description'', ''Expected authorization header.'')] 401)
      | Some auth \<Rightarrow>
          (let head_parts = py_split CHR '' '' auth in
           if length head_parts \<noteq> 2 then
             Inl (AuthError
               [(''error'', ''Invalid authorization header.''),
                (''description'', ''Expected header must has two parts.'')] 401)
           else if py_lower (head_parts ! 0) \<noteq> ''bearer'' then
             Inl (AuthError
               [(''error'', ''Invalid authorization header.''),
                (''description'', ''Authorization header must has a bearer.'')] 401)
           else Inr (head_parts ! 1)))"

subsection \<open>\<^verbatim>\<open>check_permissions\<close>\<close>

definition check_permissions :: "string \<Rightarrow> pyobj \<Rightarrow> exc + bool" where
  "check_permissions permission payload =
     exc_bind (py_contains ''permissions'' payload) (\<lambda>present.
       if \<not> present then
         Inl (AuthError
           [(''error'', ''Invalid permission''),
            (''description'', ''Permissions is not included in the payload'')] 400)
       else
         exc_bind (py_getitem payload ''permissions'') (\<lambda>granted.
           exc_bind (py_contains permission granted) (\<lambda>found.
             if \<not> found then
               Inl (AuthError
                 [(''error'', ''Invalid permission''),
                  (''description'', ''Permission is not found in the payload'')] 403)
             else Inr True)))"

subsection \<open>\<^verbatim>\<open>verify_decode_jwt\<close>\<close>

text \<open>The address of the key set, as the f-string of line 108 builds it.\<close>

definition jwks_url :: string where
  "jwks_url = ''http://'' @ AUTH0_DOMAIN @ ''/.well-known/jwks.json''"

definition issuer :: string where
  "issuer = ''https://'' @ AUTH0_DOMAIN @ ''/''"

text \<open>The dictionary literal of lines 114 to 120: five lookups in the matched entry.\<close>

definition copy_key :: "pyobj \<Rightarrow> exc + dict" where
  "copy_key key =
     exc_bind (py_getitem key ''kid'') (\<lambda>kid.
     exc_bind (py_getitem key ''kty'') (\<lambda>kty.
     exc_bind (py_getitem key ''use'') (\<lambda>use.
     exc_bind (py_getitem key ''n'') (\<lambda>n.
     exc_bind (py_getitem key ''e'') (\<lambda>e.
       Inr [(''kid'', kid), (''kty'', kty), (''use'', use), (''n'', n), (''e'', e)])))))"

text \<open>
  One pass of the loop body (line 113 on): the test is \<^verbatim>\<open>is\<close>, evaluated left to
  right, and a match overwrites \<^verbatim>\<open>jwts_key\<close>. The loop has no \<^verbatim>\<open>break\<close>.
\<close>

definition loop_body :: "dict \<Rightarrow> pyobj \<Rightarrow> dict \<Rightarrow> exc + dict" where
  "loop_body unverified_header key jwts_key =
     exc_bind (dict_getitem unverified_header ''kid'') (\<lambda>header_kid.
     exc_bind (py_getitem key ''kid'') (\<lambda>key_kid.
       if py_is header_kid key_kid then copy_key key else Inr jwts_key))"

fun key_loop :: "dict \<Rightarrow> pyobj list \<Rightarrow> dict \<Rightarrow> exc + dict" where
  "key_loop unverified_header [] jwts_key = Inr jwts_key"
| "key_loop unverified_header (key # keys) jwts_key =
     (case loop_body unverified_header key jwts_key of
        Inl e \<Rightarrow> Inl e
      | Inr jwts_key' \<Rightarrow> key_loop unverified_header keys jwts_key')"

text \<open>
  Lines 111 to 120. Iterating a list visits its elements. Iterating a string or a
  dictionary visits strings (characters, keys), on which \<^verbatim>\<open>key['kid']\<close> raises
  \<^verbatim>\<open>TypeError\<close> in the first pass; the other values are not iterable.
\<close>

definition for_keys :: "dict \<Rightarrow> pyobj \<Rightarrow> exc + dict" where
  "for_keys unverified_header keys =
     (case val keys of
        VList xs \<Rightarrow> key_loop unverified_header xs []
      | VStr s \<Rightarrow>
          (if s = [] then Inr []
           else exc_bind (dict_getitem unverified_header ''kid'') (\<lambda>_. Inl TypeError))
      | VDict kvs \<Rightarrow>
          (if kvs = [] then Inr []
           else exc_bind (dict_getitem unverified_header ''kid'') (\<lambda>_. Inl TypeError))
      | VNone \<Rightarrow> Inl TypeError
      | VBool b \<Rightarrow> Inl TypeError
      | VNum n \<Rightarrow> Inl TypeError)"

text \<open>
  How a block of statements ends: with \<^verbatim>\<open>return\<close>, with an exception, or by
  running on to the statement after it.
\<close>

datatype 'a flow = Return 'a | Raise exc | Next

text \<open>The body of the \<^verbatim>\<open>try\<close>, lines 124 to 131.\<close>

definition try_body :: "env \<Rightarrow> string \<Rightarrow> dict \<Rightarrow> pyobj flow" where
  "try_body env token jwts_key =
     (case jwt_decode env token jwts_key ALGORITHMS API_AUDIENCE issuer of
        Inl e \<Rightarrow> Raise e
      | Inr decoded_payload \<Rightarrow> Return decoded_payload)"

text \<open>The three \<^verbatim>\<open>except\<close> clauses, lines 133 to 147, in their order.\<close>

definition except_clauses :: "pyobj flow \<Rightarrow> pyobj flow" where
  "except_clauses fl =
     (case fl of
        Return v \<Rightarrow> Return v
      | Next \<Rightarrow> Next
      | Raise e \<Rightarrow>
          (if e = ExpiredSignatureError then
             Raise (AuthError
               [(''error'', ''Expiered token''),
                (''description'', ''Token is expiered'')] 401)
           else if e = JWTClaimsError then
             Raise (AuthError
               [(''error'', ''Invalid claims''),
                (''description'', ''Please check the claims of the decode function'')] 401)
           else if is_Exception e then
             Raise (AuthError
               [(''error'', ''Invalid header''),
                (''description'', ''Unable to parse authentication token'')] 401)
           else Raise e))"

text \<open>
  The block under \<^verbatim>\<open>if jwts_key:\<close>, lines 123 to 151: the \<^verbatim>\<open>try\<close> statement
  and, after it at the same indentation, the last \<^verbatim>\<open>raise\<close>.
\<close>

definition guarded_block :: "env \<Rightarrow> string \<Rightarrow> dict \<Rightarrow> pyobj flow" where
  "guarded_block env token jwts_key =
     (case except_clauses (try_body env token jwts_key) of
        Return v \<Rightarrow> Return v
      | Raise e \<Rightarrow> Raise e
      | Next \<Rightarrow>
          Raise (AuthError
            [(''error'', ''Token error during decoding''),
             (''description'', ''Token is not decoded'')] 401))"

text \<open>Lines 122 to 151, and the end of the function, where Python returns \<^verbatim>\<open>None\<close>.\<close>

definition decode_stage :: "env \<Rightarrow> string \<Rightarrow> dict \<Rightarrow> exc + pyobj" where
  "decode_stage env token jwts_key =
     (case (if jwts_key \<noteq> [] then guarded_block env token jwts_key else Next) of
        Return v \<Rightarrow> Inr v
      | Raise e \<Rightarrow> Inl e
      | Next \<Rightarrow> Inr py_None)"

text \<open>Lines 108 to 151, once the request to the key set has been sent.\<close>

definition resolve_and_decode :: "env \<Rightarrow> string \<Rightarrow> dict \<Rightarrow> exc + pyobj" where
  "resolve_and_decode env token unverified_header =
     exc_bind (urlopen_read env jwks_url) (\<lambda>body.
     exc_bind (json_loads env body) (\<lambda>jwts.
     exc_bind (py_getitem jwts ''keys'') (\<lambda>keys.
     exc_bind (for_keys unverified_header keys) (\<lambda>jwts_key.
       decode_stage env token jwts_key))))"

text \<open>The function returns its result together with the network requests it made.\<close>

definition verify_decode_jwt :: "env \<Rightarrow> string \<Rightarrow> (exc + pyobj) \<times> event list" where
  "verify_decode_jwt env token =
     (case get_unverified_header env token of
        Inl e \<Rightarrow> (Inl e, [])
      | Inr unverified_header \<Rightarrow>
          (if ''kid'' \<notin> set (map fst unverified_header) then
             (Inl (AuthError
                [(''error'', ''Token key is not exist''),
                 (''description'', ''Token lacks valid authentication key'')] 401), [])
           else (resolve_and_decode env token unverified_header, [UrlOpen jwks_url])))"

subsection \<open>\<^verbatim>\<open>requires_auth\<close>\<close>

text \<open>
  The wrapper that the decorator puts around a handler \<open>f\<close>; the positional and
  keyword arguments it passes through are part of \<open>f\<close> here.
\<close>

definition requires_auth ::
  "string \<Rightarrow> (pyobj \<Rightarrow> exc + 'r) \<Rightarrow> env \<Rightarrow> (exc + 'r) \<times> event list" where
  "requires_auth permission f env =
     (case get_token_auth_header env of
        Inl e \<Rightarrow> (Inl e, [])
      | Inr token \<Rightarrow>
          (case verify_decode_jwt env token of
             (Inl e, evs) \<Rightarrow> (Inl e, evs)
           | (Inr payload, evs) \<Rightarrow>
               (case check_permissions permission payload of
                  Inl e \<Rightarrow> (Inl e, evs)
                | Inr ok \<Rightarrow> (f payload, evs @ [HandlerCall payload]))))"

section \<open>Concrete requests\<close>

text \<open>
  A key-set entry as the provider publishes it: an RSA signing key whose \<open>kid\<close> is
  the given object.
\<close>

definition jwk :: "nat \<Rightarrow> pyobj \<Rightarrow> pyobj" where
  "jwk i kid =
     Obj i (VDict
       [(''alg'', Obj (i + 1) (VStr ''RS256'')),
        (''kty'', Obj (i + 2) (VStr ''RSA'')),
        (''use'', Obj (i + 3) (VStr ''sig'')),
        (''n'', Obj (i + 4) (VStr ''0vx7agoebGcQSuuPiLJXZptN9nndrQmbXEps2aiAFbW'')),
        (''e'', Obj (i + 5) (VStr ''AQAB'')),
        (''kid'', kid)])"

text \<open>
  A request whose \<^verbatim>\<open>Authorization\<close> header is \<open>auth\<close>, with a token whose header
  declares the object \<open>header_kid\<close>, a key set holding the entries \<open>keys\<close>, and
  \<^verbatim>\<open>jwt.decode\<close> answering \<open>decoded\<close>.
\<close>

definition request_env :: "string option \<Rightarrow> pyobj \<Rightarrow> pyobj list \<Rightarrow> exc + pyobj \<Rightarrow> env" where
  "request_env auth header_kid keys decoded =
     \<lparr> headers_get = (\<lambda>name. if name = ''Authorization'' then auth else None),
       get_unverified_header =
         (\<lambda>token. Inr [(''alg'', Obj 1 (VStr ''RS256'')), (''typ'', Obj 2 (VStr ''JWT'')),
                        (''kid'', header_kid)]),
       urlopen_read = (\<lambda>url. Inr ''{...}''),
       json_loads = (\<lambda>body. Inr (Obj 3 (VDict [(''keys'', Obj 4 (VList keys))]))),
       jwt_decode = (\<lambda>token key algorithms audience iss. decoded) \<rparr>"

text \<open>Claims that grant the permission \<open>p\<close>, and a handler that answers 200.\<close>

definition claims_granting :: "string \<Rightarrow> pyobj" where
  "claims_granting p =
     Obj 50 (VDict
       [(''iss'', Obj 51 (VStr ''https://ask-auth.us.auth0.com/'')),
        (''aud'', Obj 52 (VStr ''coffee_shop'')),
        (''exp'', Obj 53 (VNum 1600000000)),
        (''permissions'', Obj 54 (VList [Obj 55 (VStr p)]))])"

definition ok_handler :: "pyobj \<Rightarrow> exc + nat" where
  "ok_handler payload = Inr 200"

text \<open>The same request when the provider cannot be reached, and when it answers with
  a body that is not JSON.\<close>

definition unreachable_env :: env where
  "unreachable_env =
     (request_env (Some ''Bearer t'') (Obj 11 (VStr ''k1'')) [jwk 20 (Obj 11 (VStr ''k1''))]
        (Inr (claims_granting ''get:drinks-detail'')))
     \<lparr> urlopen_read := (\<lambda>url. Inl URLError) \<rparr>"

definition malformed_body_env :: env where
  "malformed_body_env =
     (request_env (Some ''Bearer t'') (Obj 11 (VStr ''k1'')) [jwk 20 (Obj 11 (VStr ''k1''))]
        (Inr (claims_granting ''get:drinks-detail'')))
     \<lparr> json_loads := (\<lambda>body. Inl JSONDecodeError) \<rparr>"


section \<open>Splitting and lower-casing\<close>

lemma py_split_not_Nil: "py_split sep s \<noteq> []"
  by (induction s) (auto split: list.splits)

lemma length_py_split: "length (py_split sep s) = Suc (count_list s sep)"
  by (induction s) (auto split: list.splits)

lemma py_split_no_sep: "sep \<notin> set s \<Longrightarrow> py_split sep s = [s]"
  by (induction s) auto

lemma py_split_append: "sep \<notin> set s \<Longrightarrow> py_split sep (s @ sep # t) = s # py_split sep t"
  by (induction s) auto

lemma count_list_append: "count_list (xs @ ys) c = count_list xs c + count_list ys c"
  by (induction xs) auto

lemma count_list_replicate: "count_list (replicate n c) c = n"
  by (induction n) auto

lemma count_list_absent: "c \<notin> set xs \<Longrightarrow> count_list xs c = 0"
  by (induction xs) auto

lemma lower_char_space: "lower_char CHR '' '' = CHR '' ''"
  by code_simp

lemma py_lower_BEARER: "py_lower ''BEARER'' = ''bearer''"
  by code_simp

lemma py_lower_Bearer: "py_lower ''Bearer'' = ''bearer''"
  by code_simp

lemma py_lower_bearer_no_space:
  assumes "py_lower s = ''bearer''"
  shows "CHR '' '' \<notin> set s"
proof
  assume "CHR '' '' \<in> set s"
  then have "lower_char CHR '' '' \<in> set (py_lower s)"
    by (simp add: py_lower_def)
  with assms show False
    by (simp add: lower_char_space)
qed

lemmas pipeline_defs = request_env_def jwk_def verify_decode_jwt_def resolve_and_decode_def
  for_keys_def loop_body_def copy_key_def py_getitem_def dict_getitem_def py_is_def exc_bind_def
  decode_stage_def guarded_block_def except_clauses_def try_body_def

section \<open>Header extraction\<close>

text \<open>
  The number of parts of the header is one more than the number of space characters
  in the separator, whatever other whitespace it holds.
\<close>

lemma header_parts_count:
  assumes "CHR '' '' \<notin> set scheme" and "CHR '' '' \<notin> set token"
  shows "length (py_split CHR '' '' (scheme @ sep @ token)) = Suc (count_list sep CHR '' '')"
  using assms by (simp add: length_py_split count_list_append count_list_absent)

text \<open>
  So, between a scheme and a token without spaces, the separator leads to the error
  for a header without two parts exactly when it does not hold one space: a space
  followed by a tab still gives two parts, the second one starting with the tab.
\<close>

lemma two_parts_error_iff_space_count:
  assumes "CHR '' '' \<notin> set scheme" and "CHR '' '' \<notin> set token"
    and "headers_get env ''Authorization'' = Some (scheme @ sep @ token)"
  shows "get_token_auth_header env =
           Inl (AuthError
             [(''error'', ''Invalid authorization header.''),
              (''description'', ''Expected header must has two parts.'')] 401)
         \<longleftrightarrow> count_list sep CHR '' '' \<noteq> 1"
  using assms(3) header_parts_count [OF assms(1,2), of sep]
  by (auto simp: get_token_auth_header_def Let_def)

text \<open>
  Claim C9. The header is split on the single space character only. When the scheme
  and the token (neither holding a space) are separated by a tab, or by two or more
  consecutive spaces, \<^verbatim>\<open>get_token_auth_header\<close> raises the 401 error for a header
  that does not have two parts, and does not return the token.
\<close>

theorem other_whitespace_is_malformed:
  assumes "CHR '' '' \<notin> set scheme" and "CHR '' '' \<notin> set token"
    and "sep = [CHR 0x09] \<or> (\<exists>n\<ge>2. sep = replicate n CHR '' '')"
    and "headers_get env ''Authorization'' = Some (scheme @ sep @ token)"
  shows "get_token_auth_header env =
           Inl (AuthError
             [(''error'', ''Invalid authorization header.''),
              (''description'', ''Expected header must has two parts.'')] 401)"
proof -
  have "count_list sep CHR '' '' \<noteq> 1"
    using assms(3) by (auto simp: count_list_replicate)
  then have "length (py_split CHR '' '' (scheme @ sep @ token)) \<noteq> 2"
    using header_parts_count [OF assms(1,2), of sep] by simp
  then show ?thesis
    using assms(4) by (simp add: get_token_auth_header_def)
qed

theorem other_whitespace_is_malformed_witness:
  "get_token_auth_header (request_env (Some (''Bearer'' @ [CHR 0x09] @ ''abc.def.ghi'')) (Obj 10 (VStr ''k1'')) [] (Inl JWTError)) =
           Inl (AuthError
             [(''error'', ''Invalid authorization header.''),
              (''description'', ''Expected header must has two parts.'')] 401)
  \<and> get_token_auth_header (request_env (Some (''Bearer'' @ replicate 2 CHR '' '' @ ''abc.def.ghi'')) (Obj 10 (VStr ''k1'')) [] (Inl JWTError)) =
           Inl (AuthError
             [(''error'', ''Invalid authorization header.''),
              (''description'', ''Expected header must has two parts.'')] 401)"
proof -
  have a: "CHR '' '' \<notin> set ''Bearer''" and b: "CHR '' '' \<notin> set ''abc.def.ghi''"
    by simp_all
  have c: "[CHR 0x09] = [CHR 0x09] \<or> (\<exists>n\<ge>2. [CHR 0x09] = replicate n CHR '' '')"
    by simp
  have d: "replicate 2 CHR '' '' = [CHR 0x09] \<or> (\<exists>n\<ge>2. replicate 2 CHR '' '' = replicate n CHR '' '')"
    by blast
  show ?thesis
    using other_whitespace_is_malformed [OF a b c, of "request_env (Some (''Bearer'' @ [CHR 0x09] @ ''abc.def.ghi'')) (Obj 10 (VStr ''k1'')) [] (Inl JWTError)"]
      other_whitespace_is_malformed [OF a b d, of "request_env (Some (''Bearer'' @ replicate 2 CHR '' '' @ ''abc.def.ghi'')) (Obj 10 (VStr ''k1'')) [] (Inl JWTError)"]
    by (simp add: request_env_def)
qed

text \<open>
  Claim C5. A request without an \<^verbatim>\<open>Authorization\<close> header: the extraction stage
  raises the 401 error for the missing header, and the wrapper ends with that error
  and an empty list of effects, so neither a request to the key set nor a call of the
  handler took place.
\<close>

theorem missing_header_never_reaches_key_resolution:
  assumes "headers_get env ''Authorization'' = None"
  shows "get_token_auth_header env =
           Inl (AuthError
             [(''message'', ''Authorization header is missing.''),
              (''description'', ''Expected authorization header.'')] 401)
         \<and> requires_auth permission f env =
           (Inl (AuthError
             [(''message'', ''Authorization header is missing.''),
              (''description'', ''Expected authorization header.'')] 401), [])"
  using assms by (simp add: requires_auth_def get_token_auth_header_def)

theorem missing_header_never_reaches_key_resolution_witness:
  "headers_get (request_env None (Obj 11 (VStr ''k1'')) [jwk 20 (Obj 11 (VStr ''k1''))]
       (Inr (claims_granting ''get:drinks-detail''))) ''Authorization'' = None
   \<and> requires_auth ''get:drinks-detail'' ok_handler
       (request_env None (Obj 11 (VStr ''k1'')) [jwk 20 (Obj 11 (VStr ''k1''))]
         (Inr (claims_granting ''get:drinks-detail''))) =
       (Inl (AuthError
         [(''message'', ''Authorization header is missing.''),
          (''description'', ''Expected authorization header.'')] 401), [])"
proof -
  have h: "headers_get (request_env None (Obj 11 (VStr ''k1'')) [jwk 20 (Obj 11 (VStr ''k1''))]
       (Inr (claims_granting ''get:drinks-detail''))) ''Authorization'' = None"
    by (simp add: request_env_def)
  show ?thesis
    using h missing_header_never_reaches_key_resolution [OF h, of "''get:drinks-detail''" ok_handler]
    by simp
qed

section \<open>Permission check\<close>

lemma map_of_None_keys: "map_of kvs k = None \<longleftrightarrow> k \<notin> set (map fst kvs)"
  by (simp add: map_of_eq_None_iff)

text \<open>
  Claim C6. On a claims payload without a \<open>permissions\<close> field,
  \<^verbatim>\<open>check_permissions\<close> raises the error with status 400; when the field is an
  array that does not hold the required string, it raises the error with status 403;
  when the array holds it, the call returns \<^verbatim>\<open>True\<close>.
\<close>

theorem check_permissions_400_403:
  "(map_of claims ''permissions'' = None \<longrightarrow>
      check_permissions permission (Obj i (VDict claims)) =
        Inl (AuthError
          [(''error'', ''Invalid permission''),
           (''description'', ''Permissions is not included in the payload'')] 400))
   \<and> (map_of claims ''permissions'' = Some (Obj j (VList granted)) \<and>
        VStr permission \<notin> set (map val granted) \<longrightarrow>
      check_permissions permission (Obj i (VDict claims)) =
        Inl (AuthError
          [(''error'', ''Invalid permission''),
           (''description'', ''Permission is not found in the payload'')] 403))
   \<and> (map_of claims ''permissions'' = Some (Obj j (VList granted)) \<and>
        VStr permission \<in> set (map val granted) \<longrightarrow>
      check_permissions permission (Obj i (VDict claims)) = Inr True)"
proof (intro conjI impI)
  assume "map_of claims ''permissions'' = None"
  then have "''permissions'' \<notin> set (map fst claims)"
    by (simp add: map_of_None_keys)
  then show "check_permissions permission (Obj i (VDict claims)) =
        Inl (AuthError
          [(''error'', ''Invalid permission''),
           (''description'', ''Permissions is not included in the payload'')] 400)"
    by (simp add: check_permissions_def py_contains_def exc_bind_def)
next
  assume a: "map_of claims ''permissions'' = Some (Obj j (VList granted)) \<and>
        VStr permission \<notin> set (map val granted)"
  then have "''permissions'' \<in> set (map fst claims)"
    using map_of_None_keys [of claims "''permissions''"] by auto
  with a show "check_permissions permission (Obj i (VDict claims)) =
        Inl (AuthError
          [(''error'', ''Invalid permission''),
           (''description'', ''Permission is not found in the payload'')] 403)"
    by (simp add: check_permissions_def py_contains_def py_getitem_def dict_getitem_def exc_bind_def)
next
  assume a: "map_of claims ''permissions'' = Some (Obj j (VList granted)) \<and>
        VStr permission \<in> set (map val granted)"
  then have "''permissions'' \<in> set (map fst claims)"
    using map_of_None_keys [of claims "''permissions''"] by auto
  with a show "check_permissions permission (Obj i (VDict claims)) = Inr True"
    by (simp add: check_permissions_def py_contains_def py_getitem_def dict_getitem_def exc_bind_def)
qed

theorem check_permissions_400_403_witness:
  "check_permissions ''post:drinks'' (Obj 50 (VDict [(''exp'', Obj 53 (VNum 1600000000))])) =
        Inl (AuthError
          [(''error'', ''Invalid permission''),
           (''description'', ''Permissions is not included in the payload'')] 400)
   \<and> check_permissions ''post:drinks'' (claims_granting ''get:drinks-detail'') =
        Inl (AuthError
          [(''error'', ''Invalid permission''),
           (''description'', ''Permission is not found in the payload'')] 403)
   \<and> check_permissions ''post:drinks'' (claims_granting ''post:drinks'') = Inr True"
proof -
  have a: "map_of [(''exp'', Obj 53 (VNum 1600000000))] ''permissions'' = None"
    by simp
  have b: "map_of [(''iss'', Obj 51 (VStr ''https://ask-auth.us.auth0.com/'')),
        (''aud'', Obj 52 (VStr ''coffee_shop'')),
        (''exp'', Obj 53 (VNum 1600000000)),
        (''permissions'', Obj 54 (VList [Obj 55 (VStr ''get:drinks-detail'')]))] ''permissions''
        = Some (Obj 54 (VList [Obj 55 (VStr ''get:drinks-detail'')]))
      \<and> VStr ''post:drinks'' \<notin> set (map val [Obj 55 (VStr ''get:drinks-detail'')])"
    by simp
  have c: "map_of [(''iss'', Obj 51 (VStr ''https://ask-auth.us.auth0.com/'')),
        (''aud'', Obj 52 (VStr ''coffee_shop'')),
        (''exp'', Obj 53 (VNum 1600000000)),
        (''permissions'', Obj 54 (VList [Obj 55 (VStr ''post:drinks'')]))] ''permissions''
        = Some (Obj 54 (VList [Obj 55 (VStr ''post:drinks'')]))
      \<and> VStr ''post:drinks'' \<in> set (map val [Obj 55 (VStr ''post:drinks'')])"
    by simp
  show ?thesis
    using check_permissions_400_403 [THEN conjunct1, rule_format, OF a, of "''post:drinks''" 50]
      check_permissions_400_403 [THEN conjunct2, THEN conjunct1, rule_format, OF b, of 50]
      check_permissions_400_403 [THEN conjunct2, THEN conjunct2, rule_format, OF c, of 50]
    by (simp add: claims_granting_def)
qed

section \<open>Case of the scheme and of permissions\<close>

lemma bearer_scheme_accepted:
  assumes "py_lower scheme = ''bearer''" and "CHR '' '' \<notin> set token"
    and "headers_get env ''Authorization'' = Some (scheme @ CHR '' '' # token)"
  shows "get_token_auth_header env = Inr token"
proof -
  have "CHR '' '' \<notin> set scheme"
    using assms(1) by (rule py_lower_bearer_no_space)
  then have "py_split CHR '' '' (scheme @ CHR '' '' # token) = [scheme, token]"
    using assms(2) by (simp add: py_split_append py_split_no_sep)
  then show ?thesis
    using assms(1,3) by (simp add: get_token_auth_header_def)
qed

lemma permission_membership_exact:
  "check_permissions permission (Obj i (VDict [(''permissions'', Obj j (VList granted))])) =
     (if VStr permission \<in> set (map val granted) then Inr True
      else Inl (AuthError
          [(''error'', ''Invalid permission''),
           (''description'', ''Permission is not found in the payload'')] 403))"
  by (simp add: check_permissions_def py_contains_def py_getitem_def dict_getitem_def exc_bind_def)

text \<open>
  Claim C8. The scheme is compared after lower-casing: every header made of a word
  that lower-cases to \<open>bearer\<close>, one space and a token without spaces yields the
  token, so \<open>BEARER abc.def.ghi\<close> yields \<open>abc.def.ghi\<close>. The permission is
  compared exactly: the check succeeds only when the granted array holds the very
  string required, so a granted \<open>Post:Drinks\<close> is refused (403) for the required
  \<open>post:drinks\<close>.
\<close>

theorem scheme_case_insensitive_permission_case_sensitive:
  "(py_lower scheme = ''bearer'' \<and> CHR '' '' \<notin> set token \<and>
      headers_get env ''Authorization'' = Some (scheme @ CHR '' '' # token) \<longrightarrow>
      get_token_auth_header env = Inr token)
   \<and> get_token_auth_header (request_env (Some ''BEARER abc.def.ghi'') kid keys decoded) =
       Inr ''abc.def.ghi''
   \<and> (check_permissions permission
         (Obj i (VDict [(''permissions'', Obj j (VList granted))])) = Inr True
       \<longleftrightarrow> VStr permission \<in> set (map val granted))
   \<and> check_permissions ''post:drinks'' (claims_granting ''Post:Drinks'') =
       Inl (AuthError
          [(''error'', ''Invalid permission''),
           (''description'', ''Permission is not found in the payload'')] 403)"
proof (intro conjI)
  show "py_lower scheme = ''bearer'' \<and> CHR '' '' \<notin> set token \<and>
      headers_get env ''Authorization'' = Some (scheme @ CHR '' '' # token) \<longrightarrow>
      get_token_auth_header env = Inr token"
    using bearer_scheme_accepted by blast
  have "headers_get (request_env (Some ''BEARER abc.def.ghi'') kid keys decoded) ''Authorization''
          = Some (''BEARER'' @ CHR '' '' # ''abc.def.ghi'')"
    by (simp add: request_env_def)
  then show "get_token_auth_header (request_env (Some ''BEARER abc.def.ghi'') kid keys decoded) =
       Inr ''abc.def.ghi''"
    by (rule bearer_scheme_accepted [OF py_lower_BEARER, rotated]) simp
  show "check_permissions permission
         (Obj i (VDict [(''permissions'', Obj j (VList granted))])) = Inr True
       \<longleftrightarrow> VStr permission \<in> set (map val granted)"
    by (simp add: permission_membership_exact)
  show "check_permissions ''post:drinks'' (claims_granting ''Post:Drinks'') =
       Inl (AuthError
          [(''error'', ''Invalid permission''),
           (''description'', ''Permission is not found in the payload'')] 403)"
    by (simp add: claims_granting_def check_permissions_def py_contains_def py_getitem_def
        dict_getitem_def exc_bind_def)
qed

theorem scheme_case_insensitive_permission_case_sensitive_witness:
  "py_lower ''bEaReR'' = ''bearer''
   \<and> get_token_auth_header
       (request_env (Some ''bEaReR abc.def.ghi'') (Obj 11 (VStr ''k1'')) [] (Inl JWTError)) =
       Inr ''abc.def.ghi''"
proof -
  have a: "py_lower ''bEaReR'' = ''bearer''"
    by code_simp
  have b: "CHR '' '' \<notin> set ''abc.def.ghi''"
    by simp
  have c: "headers_get
      (request_env (Some ''bEaReR abc.def.ghi'') (Obj 11 (VStr ''k1'')) [] (Inl JWTError))
      ''Authorization'' = Some (''bEaReR'' @ CHR '' '' # ''abc.def.ghi'')"
    by (simp add: request_env_def)
  show ?thesis
    using a scheme_case_insensitive_permission_case_sensitive
      [THEN conjunct1, rule_format, OF conjI [OF a conjI [OF b c]]]
    by simp
qed

section \<open>Token verification\<close>

lemma not_is_Exception: "\<not> is_Exception e \<Longrightarrow> \<exists>name. e = NonException name"
  by (cases e) simp_all

lemma except_clauses_try_body_not_Next:
  "except_clauses (try_body env token jwts_key) \<noteq> Next"
  by (simp add: except_clauses_def try_body_def split: sum.splits)

text \<open>
  Claim C10. The \<^verbatim>\<open>try\<close> statement never runs on to the statement after it: it
  returns or raises. So the block under \<^verbatim>\<open>if jwts_key:\<close> ends exactly as the
  \<^verbatim>\<open>try\<close> statement does, and the function never raises the error
  \<open>Token error during decoding\<close> of its last statement.
\<close>

theorem final_raise_unreachable:
  "except_clauses (try_body env token jwts_key) \<noteq> Next
   \<and> guarded_block env token jwts_key = except_clauses (try_body env token jwts_key)
   \<and> decode_stage env token jwts_key \<noteq>
       Inl (AuthError
         [(''error'', ''Token error during decoding''),
          (''description'', ''Token is not decoded'')] 401)"
proof (intro conjI)
  show n: "except_clauses (try_body env token jwts_key) \<noteq> Next"
    by (rule except_clauses_try_body_not_Next)
  then show g: "guarded_block env token jwts_key = except_clauses (try_body env token jwts_key)"
    by (simp add: guarded_block_def split: flow.splits)
  show "decode_stage env token jwts_key \<noteq>
       Inl (AuthError
         [(''error'', ''Token error during decoding''),
          (''description'', ''Token is not decoded'')] 401)"
    unfolding decode_stage_def g
    by (auto simp: except_clauses_def try_body_def py_None_def
        split: sum.splits dest: not_is_Exception)
qed

section \<open>Failure of the key-set request\<close>


text \<open>
  Claim C3, as the code has it. When the token header declares a \<open>kid\<close> and the
  request to the key set fails, either in \<^verbatim>\<open>urlopen(...).read()\<close> or in
  \<^verbatim>\<open>json.loads\<close>, \<^verbatim>\<open>verify_decode_jwt\<close> raises no \<^verbatim>\<open>AuthError\<close> of its own:
  the exception of the library leaves the function unchanged, after the one network
  request, and leaves the wrapper too, the handler not being called.
\<close>

theorem fetch_failure_propagates:
  assumes "get_unverified_header env token = Inr unverified_header"
    and "''kid'' \<in> set (map fst unverified_header)"
    and "urlopen_read env jwks_url = Inl e \<or>
         (\<exists>body. urlopen_read env jwks_url = Inr body \<and> json_loads env body = Inl e)"
  shows "verify_decode_jwt env token = (Inl e, [UrlOpen jwks_url])
         \<and> (get_token_auth_header env = Inr token \<longrightarrow>
              requires_auth permission f env = (Inl e, [UrlOpen jwks_url]))"
proof -
  have "resolve_and_decode env token unverified_header = Inl e"
    using assms(3) by (auto simp: resolve_and_decode_def exc_bind_def)
  then have v: "verify_decode_jwt env token = (Inl e, [UrlOpen jwks_url])"
    using assms(1,2) by (simp add: verify_decode_jwt_def)
  then show ?thesis
    by (simp add: requires_auth_def)
qed

theorem fetch_failure_propagates_witness:
  "requires_auth ''get:drinks-detail'' ok_handler unreachable_env =
     (Inl URLError, [UrlOpen jwks_url])
   \<and> requires_auth ''get:drinks-detail'' ok_handler malformed_body_env =
     (Inl JSONDecodeError, [UrlOpen jwks_url])"
proof -
  let ?h = "[(''alg'', Obj 1 (VStr ''RS256'')), (''typ'', Obj 2 (VStr ''JWT'')),
             (''kid'', Obj 11 (VStr ''k1''))]"
  have a1: "get_unverified_header unreachable_env ''t'' = Inr ?h"
    and a2: "get_unverified_header malformed_body_env ''t'' = Inr ?h"
    by (simp_all add: unreachable_env_def malformed_body_env_def request_env_def)
  have b: "''kid'' \<in> set (map fst ?h)"
    by simp
  have c1: "urlopen_read unreachable_env jwks_url = Inl URLError \<or>
         (\<exists>body. urlopen_read unreachable_env jwks_url = Inr body \<and>
            json_loads unreachable_env body = Inl URLError)"
    by (simp add: unreachable_env_def)
  have c2: "urlopen_read malformed_body_env jwks_url = Inl JSONDecodeError \<or>
         (\<exists>body. urlopen_read malformed_body_env jwks_url = Inr body \<and>
            json_loads malformed_body_env body = Inl JSONDecodeError)"
    by (simp add: malformed_body_env_def request_env_def)
  have d1: "get_token_auth_header unreachable_env = Inr ''t''"
    and d2: "get_token_auth_header malformed_body_env = Inr ''t''"
    by (simp_all add: unreachable_env_def malformed_body_env_def request_env_def
        get_token_auth_header_def py_lower_Bearer)
  show ?thesis
    using fetch_failure_propagates [OF a1 b c1, of "''get:drinks-detail''" ok_handler]
      fetch_failure_propagates [OF a2 b c2, of "''get:drinks-detail''" ok_handler] d1 d2
    by simp
qed

text \<open>
  The claim as the specification words it, a 401 error for an unavailable key set,
  fails when the provider cannot be reached: the caller sees \<^verbatim>\<open>URLError\<close>.
\<close>

theorem fetch_failure_counterexample:
  "verify_decode_jwt unreachable_env ''t'' = (Inl URLError, [UrlOpen jwks_url])"
  by (simp add: unreachable_env_def pipeline_defs)

section \<open>Selection of the key\<close>

text \<open>
  Claim C1. The entry is chosen by \<^verbatim>\<open>is\<close>, not by equality of the strings. A
  key-set entry whose \<open>kid\<close> is the string \<open>k1\<close> is not selected for a token
  that declares \<open>k1\<close> when the two strings are different objects: \<^verbatim>\<open>jwts_key\<close>
  stays empty and the function returns \<^verbatim>\<open>None\<close>.
\<close>


theorem kid_compared_by_identity:
  "for_keys [(''kid'', Obj 10 (VStr ''k1''))] (Obj 4 (VList [jwk 20 (Obj 11 (VStr ''k1''))])) = Inr []
   \<and> verify_decode_jwt
       (request_env (Some ''Bearer t'') (Obj 10 (VStr ''k1'')) [jwk 20 (Obj 11 (VStr ''k1''))]
          (Inr (claims_granting ''get:drinks-detail''))) ''t'' =
       (Inr py_None, [UrlOpen jwks_url])"
  by (simp add: pipeline_defs)

text \<open>The entry is selected when its \<open>kid\<close> is the very object the token header holds.\<close>

lemma same_object_kid_selected:
  "for_keys [(''kid'', Obj 11 (VStr ''k1''))] (Obj 4 (VList [jwk 20 (Obj 11 (VStr ''k1''))])) \<noteq> Inr []
   \<and> verify_decode_jwt
       (request_env (Some ''Bearer t'') (Obj 11 (VStr ''k1'')) [jwk 20 (Obj 11 (VStr ''k1''))]
          (Inr (claims_granting ''get:drinks-detail''))) ''t'' =
       (Inr (claims_granting ''get:drinks-detail''), [UrlOpen jwks_url])"
  by (simp add: pipeline_defs)

text \<open>
  Whatever the key set, a selected entry has a \<open>kid\<close> that is the same object as
  the \<open>kid\<close> of the token header.
\<close>

lemma loop_body_result:
  assumes "loop_body unverified_header key jwts_key = Inr jwts_key'"
  shows "jwts_key' = jwts_key \<or>
         (\<exists>header_kid key_kid. map_of unverified_header ''kid'' = Some header_kid \<and>
            py_getitem key ''kid'' = Inr key_kid \<and> ident key_kid = ident header_kid \<and>
            map_of jwts_key' ''kid'' = Some key_kid)"
  using assms
  by (auto simp: loop_body_def copy_key_def dict_getitem_def py_is_def exc_bind_def
      split: option.splits sum.splits if_splits)

lemma key_loop_selects_same_object:
  assumes "key_loop unverified_header keys jwts_key = Inr selected"
  shows "selected = jwts_key \<or>
         (\<exists>header_kid key_kid key. key \<in> set keys \<and>
            map_of unverified_header ''kid'' = Some header_kid \<and>
            py_getitem key ''kid'' = Inr key_kid \<and> ident key_kid = ident header_kid \<and>
            map_of selected ''kid'' = Some key_kid)"
  using assms
proof (induction keys arbitrary: jwts_key)
  case Nil
  then show ?case by simp
next
  case (Cons key keys)
  from Cons.prems obtain mid where
    body: "loop_body unverified_header key jwts_key = Inr mid"
    and rest: "key_loop unverified_header keys mid = Inr selected"
    by (auto split: sum.splits)
  from Cons.IH [OF rest] loop_body_result [OF body] show ?case
    by auto
qed

text \<open>
  Claim C2. When no entry is selected, \<^verbatim>\<open>jwts_key\<close> is the empty dictionary, the
  block under \<^verbatim>\<open>if jwts_key:\<close> is skipped and the function returns \<^verbatim>\<open>None\<close>
  instead of raising a 401 error: so it does for a key set whose only entry has
  another \<open>kid\<close>, and for an empty key set.
\<close>

theorem unknown_kid_returns_None:
  "decode_stage env token [] = Inr py_None
   \<and> verify_decode_jwt
       (request_env (Some ''Bearer t'') (Obj 10 (VStr ''k1'')) [jwk 20 (Obj 11 (VStr ''k2''))]
          (Inr (claims_granting ''get:drinks-detail''))) ''t'' =
       (Inr py_None, [UrlOpen jwks_url])
   \<and> verify_decode_jwt
       (request_env (Some ''Bearer t'') (Obj 10 (VStr ''k1'')) []
          (Inr (claims_granting ''get:drinks-detail''))) ''t'' =
       (Inr py_None, [UrlOpen jwks_url])"
  by (simp add: pipeline_defs)

text \<open>
  Claim C4. Every run of \<^verbatim>\<open>verify_decode_jwt\<close> makes no network request or the
  single request to the well-known key-set path under the configured domain; the
  scheme of that address is \<open>http\<close>, not \<open>https\<close>.
\<close>

theorem key_set_requested_over_http:
  "jwks_url = ''http://ask-auth.us.auth0.com/.well-known/jwks.json''
   \<and> take 8 jwks_url \<noteq> ''https://''
   \<and> (snd (verify_decode_jwt env token) = [] \<or>
      snd (verify_decode_jwt env token) =
        [UrlOpen ''http://ask-auth.us.auth0.com/.well-known/jwks.json''])"
  by (simp add: jwks_url_def AUTH0_DOMAIN_def verify_decode_jwt_def split: sum.splits)

section \<open>Expired tokens\<close>

text \<open>
  Claim C7. A token that \<^verbatim>\<open>jwt.decode\<close> would reject as expired, with a key-set
  entry of the same \<open>kid\<close> string held in another object: no key is selected,
  \<^verbatim>\<open>jwt.decode\<close> is not called, \<^verbatim>\<open>verify_decode_jwt\<close> returns \<^verbatim>\<open>None\<close> and
  the wrapper ends with the \<^verbatim>\<open>TypeError\<close> of \<^verbatim>\<open>check_permissions\<close>, not with the
  401 error for an expired token. The handler is not called.
\<close>

theorem expired_token_key_not_selected:
  "requires_auth ''get:drinks-detail'' ok_handler
     (request_env (Some ''Bearer t'') (Obj 10 (VStr ''k1'')) [jwk 20 (Obj 11 (VStr ''k1''))]
        (Inl ExpiredSignatureError)) =
   (Inl TypeError, [UrlOpen jwks_url])"
  by (simp add: requires_auth_def get_token_auth_header_def py_lower_Bearer pipeline_defs
      check_permissions_def py_contains_def py_None_def)

text \<open>
  Once a key has been selected, the expired token is refused with its own 401 error,
  before the permission check and without a call of the handler.
\<close>

lemma expired_token_when_key_selected:
  assumes "get_token_auth_header env = Inr token"
    and "get_unverified_header env token = Inr unverified_header"
    and "''kid'' \<in> set (map fst unverified_header)"
    and "urlopen_read env jwks_url = Inr body"
    and "json_loads env body = Inr jwts"
    and "py_getitem jwts ''keys'' = Inr keys"
    and "for_keys unverified_header keys = Inr jwts_key"
    and "jwts_key \<noteq> []"
    and "jwt_decode env token jwts_key ALGORITHMS API_AUDIENCE issuer = Inl ExpiredSignatureError"
  shows "requires_auth permission f env =
           (Inl (AuthError
              [(''error'', ''Expiered token''),
               (''description'', ''Token is expiered'')] 401), [UrlOpen jwks_url])"
  using assms
  by (simp add: requires_auth_def verify_decode_jwt_def resolve_and_decode_def exc_bind_def
      decode_stage_def guarded_block_def except_clauses_def try_body_def)

lemma expired_token_same_object_kid:
  "requires_auth ''get:drinks-detail'' ok_handler
     (request_env (Some ''Bearer t'') (Obj 11 (VStr ''k1'')) [jwk 20 (Obj 11 (VStr ''k1''))]
        (Inl ExpiredSignatureError)) =
   (Inl (AuthError
      [(''error'', ''Expiered token''),
       (''description'', ''Token is expiered'')] 401), [UrlOpen jwks_url])"
  by (simp add: requires_auth_def get_token_auth_header_def py_lower_Bearer pipeline_defs)

end
